theory Spec2Isabelle
  imports Main "HOL-Library.Sublist"
begin

section \<open>Sentinel-1 download script: a shallow embedding of download_sentinel1.py\<close>

text \<open>
  The script is a sequence of calls into collaborators that live outside the repository
  (the process environment, pandas, the sentinelsat client). Those collaborators are the
  fields of the record \<open>world\<close>; the functions of the script are translated one by one
  on top of it. Everything the script does beyond returning a value is written into an
  event trace, and every exception is a value of the type \<open>error\<close>.
\<close>

subsection \<open>Data\<close>

text \<open>A pandas Timestamp, compared as an instant.\<close>

type_synonym timestamp = int

text \<open>
  A value in the result table: a string, a timestamp, or the missing timestamp \<open>NaT\<close>.
\<close>

datatype cell = Text string | Time timestamp | NaT

text \<open>
  A row of the result table, as \<open>products.iterrows()\<close> yields it: the value of each
  column that the table has.
\<close>

type_synonym row = "string \<rightharpoonup> cell"

text \<open>
  The answer of \<open>api.get_product_odata(uuid)\<close>: the script reads the keys
  \<open>'Online'\<close> and \<open>'title'\<close> of it.
\<close>

record odata =
  Online :: bool
  meta_title :: string

text \<open>The object built by \<open>SentinelAPI(user=..., password=..., api_url=...)\<close>.\<close>

record session =
  user :: string
  password :: string
  api_url :: string

text \<open>
  One call \<open>api.query(footprint, date=(..., ...), platformname=..., **filters)\<close>.
  The optional filter keywords are kept as the list of keyword and value that the call
  site writes, in its order; the value \<open>None\<close> is Python's \<open>None\<close>.
\<close>

record search_call =
  area :: string
  date :: "string \<times> string"
  platformname :: string
  filters :: "(string \<times> string option) list"

text \<open>The namespace returned by \<open>parser.parse_args()\<close>.\<close>

record args =
  outdir :: "string option"
  footprint :: "string option"
  start_date :: "string option"
  end_date :: "string option"
  product_type :: "string option"
  pass_direction :: "string option"
  download_flag :: bool
  online_flag :: bool

text \<open>
  What lies outside the script. A collaborator that can raise returns \<open>None\<close>
  (or \<open>False\<close>) where it does.
\<close>

record world =
  environ :: "string \<rightharpoonup> string"
  path_cwd :: string
  read_footprint :: "string \<Rightarrow> string option"
  to_datetime :: "string \<Rightarrow> timestamp option"
  timestamp_str :: "timestamp \<Rightarrow> string"
  strftime :: "timestamp \<Rightarrow> string \<Rightarrow> string"
  api_query :: "session \<Rightarrow> search_call \<Rightarrow> row list option"
  get_product_odata :: "session \<Rightarrow> cell \<Rightarrow> odata option"
  api_download :: "session \<Rightarrow> cell \<Rightarrow> string \<Rightarrow> bool"

datatype error =
    KeyError string
  | AssertionError string
  | NameError string
  | ValueError string
  | ParserError string
  | ApiError string
  | AttributeError string
  | NotInIndex "string list"

datatype event =
    Getenv string
  | NewSession session
  | ReadFootprint string
  | Search session search_call
  | ProductOdata session cell
  | Download session cell string
  | Print "string list"

type_synonym 'a io = "event list \<times> (error + 'a)"

subsection \<open>Sequencing\<close>

definition return :: "'a \<Rightarrow> 'a io" where
  "return a = ([], Inr a)"

definition raise :: "error \<Rightarrow> 'a io" where
  "raise e = ([], Inl e)"

definition emit :: "event \<Rightarrow> unit io" where
  "emit e = ([e], Inr ())"

definition bind_io :: "'a io \<Rightarrow> ('a \<Rightarrow> 'b io) \<Rightarrow> 'b io" where
  "bind_io m f =
     (case m of
        (t, Inl e) \<Rightarrow> (t, Inl e)
      | (t, Inr a) \<Rightarrow> (case f a of (t', r) \<Rightarrow> (t @ t', r)))"

definition trace :: "'a io \<Rightarrow> event list" where
  "trace m = fst m"

definition outcome :: "'a io \<Rightarrow> error + 'a" where
  "outcome m = snd m"

subsection \<open>Python values\<close>

text \<open>Truth value of an optional string: \<open>None\<close> and the empty string are false.\<close>

fun truthy :: "string option \<Rightarrow> bool" where
  "truthy None = False"
| "truthy (Some s) = (s \<noteq> [])"

definition newline :: string where
  "newline = [CHR 0x0A]"

definition digit :: "nat \<Rightarrow> char" where
  "digit d = ''0123456789'' ! d"

text \<open>The decimal numeral that an f-string writes for a length.\<close>

fun str_nat :: "nat \<Rightarrow> string" where
  "str_nat n = (if n < 10 then [digit n] else str_nat (n div 10) @ [digit (n mod 10)])"

declare str_nat.simps [simp del]

text \<open>\<open>print(*xs)\<close>: the trace keeps the arguments.\<close>

definition print :: "string list \<Rightarrow> unit io" where
  "print xs = emit (Print xs)"

fun print_each :: "string list \<Rightarrow> unit io" where
  "print_each [] = return ()"
| "print_each (p # ps) = bind_io (print [p]) (\<lambda>_. print_each ps)"

subsection \<open>Collaborators as actions\<close>

text \<open>\<open>os.environ[key]\<close>: a missing key raises \<open>KeyError\<close>.\<close>

definition getenv :: "world \<Rightarrow> string \<Rightarrow> string io" where
  "getenv w key =
     bind_io (emit (Getenv key)) (\<lambda>_.
       case environ w key of None \<Rightarrow> raise (KeyError key) | Some v \<Rightarrow> return v)"

text \<open>\<open>geojson_to_wkt(read_geojson(footprint_path))\<close>.\<close>

definition geojson_wkt :: "world \<Rightarrow> string \<Rightarrow> string io" where
  "geojson_wkt w path =
     bind_io (emit (ReadFootprint path)) (\<lambda>_.
       case read_footprint w path of None \<Rightarrow> raise (ApiError ''read_geojson'') | Some g \<Rightarrow> return g)"

text \<open>
  \<open>pd.to_datetime(df['dates'], format='%Y%m%d')\<close> on the column of the two dates:
  it raises when one of them does not parse.
\<close>

definition dates_to_datetime :: "world \<Rightarrow> string \<Rightarrow> string \<Rightarrow> (timestamp \<times> timestamp) io" where
  "dates_to_datetime w d0 d1 =
     (case (to_datetime w d0, to_datetime w d1) of
        (Some t0, Some t1) \<Rightarrow> return (t0, t1)
      | _ \<Rightarrow> raise (ValueError ''to_datetime''))"

definition py_assert :: "bool \<Rightarrow> string \<Rightarrow> unit io" where
  "py_assert b msg = (if b then return () else raise (AssertionError msg))"

definition search :: "world \<Rightarrow> session \<Rightarrow> search_call \<Rightarrow> row list io" where
  "search w api c =
     bind_io (emit (Search api c)) (\<lambda>_.
       case api_query w api c of None \<Rightarrow> raise (ApiError ''query'') | Some ps \<Rightarrow> return ps)"

definition product_odata :: "world \<Rightarrow> session \<Rightarrow> cell \<Rightarrow> odata io" where
  "product_odata w api u =
     bind_io (emit (ProductOdata api u)) (\<lambda>_.
       case get_product_odata w api u of
         None \<Rightarrow> raise (ApiError ''get_product_odata'')
       | Some m \<Rightarrow> return m)"

definition download_product :: "world \<Rightarrow> session \<Rightarrow> cell \<Rightarrow> string \<Rightarrow> unit io" where
  "download_product w api u output =
     bind_io (emit (Download api u output)) (\<lambda>_.
       if api_download w api u output then return () else raise (ApiError ''download''))"

subsection \<open>Rows\<close>

text \<open>
  \<open>row[labels]\<close>: the row restricted to the labels. pandas raises \<open>KeyError\<close> with
  the labels that are not in the index when there are some.
\<close>

definition select_columns :: "row \<Rightarrow> string list \<Rightarrow> row io" where
  "select_columns r labels =
     (case filter (\<lambda>k. r k = None) labels of
        [] \<Rightarrow> return (r |` set labels)
      | k # ks \<Rightarrow> raise (NotInIndex (k # ks)))"

text \<open>\<open>product[label]\<close>.\<close>

definition getitem :: "row \<Rightarrow> string \<Rightarrow> cell io" where
  "getitem r label = (case r label of None \<Rightarrow> raise (KeyError label) | Some c \<Rightarrow> return c)"

text \<open>
  \<open>date.strftime(fmt)\<close>: a timestamp is formatted, \<open>NaT\<close> raises \<open>ValueError\<close>, and a
  string has no such method.
\<close>

definition cell_strftime :: "world \<Rightarrow> cell \<Rightarrow> string \<Rightarrow> string io" where
  "cell_strftime w c fmt =
     (case c of
        Time t \<Rightarrow> return (strftime w t fmt)
      | NaT \<Rightarrow> raise (ValueError ''NaTType does not support strftime'')
      | Text s \<Rightarrow> raise (AttributeError ''strftime''))"

subsection \<open>sentinel_api\<close>

definition SentinelAPI :: "string \<Rightarrow> string \<Rightarrow> string \<Rightarrow> session" where
  "SentinelAPI usr pwd url = \<lparr>user = usr, password = pwd, api_url = url\<rparr>"

definition sentinel_api :: "string \<Rightarrow> string \<Rightarrow> session io" where
  "sentinel_api usr pwd =
     (let url = ''https://scihub.copernicus.eu/dhus/'';
          api = SentinelAPI usr pwd url
      in bind_io (emit (NewSession api)) (\<lambda>_. return api))"

subsection \<open>query\<close>

text \<open>\<open>api.to_dataframe(products)\<close>: the table has the products as its rows, in order.\<close>

definition to_dataframe :: "row list \<Rightarrow> row list" where
  "to_dataframe products = products"

definition date_message :: "string \<Rightarrow> string \<Rightarrow> string" where
  "date_message s0 s1 =
     ''The start date '' @ s0 @ '' must be smaller than the end date '' @ s1"

definition found_message :: "nat \<Rightarrow> string list" where
  "found_message n = [str_nat n @ '' scenes have been found in total'', newline]"

definition query ::
  "world \<Rightarrow> string \<Rightarrow> string \<Rightarrow> string \<Rightarrow> string option \<Rightarrow> string option \<Rightarrow> row list io" where
  "query w footprint_path start end prod_type pass_dir =
     bind_io (getenv w ''user'') (\<lambda>usr.
     bind_io (getenv w ''password'') (\<lambda>pwd.
     bind_io (sentinel_api usr pwd) (\<lambda>api.
     bind_io (geojson_wkt w footprint_path) (\<lambda>fp.
     bind_io (dates_to_datetime w start end) (\<lambda>(t0, t1).
     bind_io (py_assert (t0 < t1) (date_message (timestamp_str w t0) (timestamp_str w t1))) (\<lambda>_.
     bind_io
       (if prod_type = None \<and> pass_dir = None then
          bind_io (search w api
                     \<lparr>area = fp, date = (start, end), platformname = ''Sentinel-1'',
                      filters = []\<rparr>) (\<lambda>products.
          bind_io (print (found_message (length products))) (\<lambda>_. return products))
        else if truthy pass_dir \<and> \<not> truthy prod_type then
          bind_io (search w api
                     \<lparr>area = fp, date = (start, end), platformname = ''Sentinel-1'',
                      filters = [(''orbitdirection'', pass_dir)]\<rparr>) (\<lambda>products.
          bind_io (print (found_message (length products))) (\<lambda>_. return products))
        else if truthy prod_type \<and> \<not> truthy pass_dir then
          bind_io (search w api
                     \<lparr>area = fp, date = (start, end), platformname = ''Sentinel-1'',
                      filters = [(''producttype'', prod_type)]\<rparr>) (\<lambda>products.
          bind_io (print (found_message (length products))) (\<lambda>_. return products))
        else
          bind_io (search w api
                     \<lparr>area = fp, date = (start, end), platformname = ''Sentinel-1'',
                      filters = [(''producttype'', prod_type), (''orbitdirection'', pass_dir)]\<rparr>) (\<lambda>products.
          bind_io (print (found_message (length products))) (\<lambda>_. return products)))
       (\<lambda>products. return (to_dataframe products))))))))"

subsection \<open>is_online\<close>

text \<open>
  The loop over \<open>products.iterrows()\<close>, with the two lists it appends to. Each round
  selects the three columns of the row and formats its date before it asks for the
  status; the formatted date is not read afterwards.
\<close>

fun is_online_rows ::
  "world \<Rightarrow> session \<Rightarrow> row list \<Rightarrow> string list \<Rightarrow> string list \<Rightarrow> (string list \<times> string list) io" where
  "is_online_rows w api [] products_online products_offline =
     return (products_online, products_offline)"
| "is_online_rows w api (row # rows) products_online products_offline =
     bind_io (select_columns row [''title'', ''uuid'', ''beginposition'']) (\<lambda>product.
     bind_io (getitem product ''beginposition'') (\<lambda>date.
     bind_io (cell_strftime w date ''%Y-%m-%d'') (\<lambda>date_str.
     bind_io (getitem product ''uuid'') (\<lambda>uuid.
     bind_io (product_odata w api uuid) (\<lambda>meta.
       if Online meta
       then is_online_rows w api rows (products_online @ [meta_title meta]) products_offline
       else is_online_rows w api rows products_online (products_offline @ [meta_title meta]))))))"

definition is_online_report :: "string list \<Rightarrow> string list \<Rightarrow> unit io" where
  "is_online_report products_online products_offline =
     (if length products_offline = 0 \<and> length products_online > 0 then
        bind_io (print ['' All products requested('' @ str_nat (length products_online)
                          @ '') are online'', newline]) (\<lambda>_.
        print_each products_online)
      else if length products_offline > 0 \<and> length products_online = 0 then
        bind_io (print [''All products requested ('' @ str_nat (length products_offline)
                          @ '') are offline'', newline]) (\<lambda>_.
        print_each products_offline)
      else
        bind_io (print [str_nat (length products_online) @ '' online and ''
                          @ str_nat (length products_offline)
                          @ '' offline products have been found'', newline]) (\<lambda>_.
        bind_io (print [''Online products'', newline]) (\<lambda>_.
        bind_io (print_each products_online) (\<lambda>_.
        bind_io (print [''offline products'', newline]) (\<lambda>_.
        print_each products_offline)))))"

definition is_online :: "world \<Rightarrow> row list \<Rightarrow> unit io" where
  "is_online w products =
     bind_io (getenv w ''user'') (\<lambda>usr.
     bind_io (getenv w ''password'') (\<lambda>pwd.
     bind_io (sentinel_api usr pwd) (\<lambda>api.
     bind_io (is_online_rows w api products [] []) (\<lambda>(products_online, products_offline).
     is_online_report products_online products_offline))))"

subsection \<open>download\<close>

fun download_rows :: "world \<Rightarrow> session \<Rightarrow> row list \<Rightarrow> string \<Rightarrow> unit io" where
  "download_rows w api [] output = return ()"
| "download_rows w api (row # rows) output =
     bind_io (select_columns row [''title'', ''uuid'', ''beginposition'']) (\<lambda>product.
     bind_io (getitem product ''beginposition'') (\<lambda>date.
     bind_io (cell_strftime w date ''%Y-%m-%d'') (\<lambda>date_str.
     bind_io (getitem product ''uuid'') (\<lambda>uuid.
     bind_io (product_odata w api uuid) (\<lambda>meta.
     bind_io
       (if Online meta then
          bind_io (print [''Product '' @ meta_title meta @ '' is online.'']) (\<lambda>_.
          bind_io (getitem product ''uuid'') (\<lambda>u.
          download_product w api u output))
        else
          print [''Product '' @ meta_title meta @ '' is not online.''])
       (\<lambda>_. download_rows w api rows output))))))"

definition download :: "world \<Rightarrow> row list \<Rightarrow> string \<Rightarrow> unit io" where
  "download w products output =
     bind_io (getenv w ''user'') (\<lambda>usr.
     bind_io (getenv w ''password'') (\<lambda>pwd.
     bind_io (sentinel_api usr pwd) (\<lambda>api.
     download_rows w api products output)))"

subsection \<open>The command line\<close>

text \<open>
  The string of an argument that is set. The script reads an argument as a string only
  after it has tested its truth value.
\<close>

fun arg_value :: "string option \<Rightarrow> string" where
  "arg_value None = []"
| "arg_value (Some s) = s"

definition valid_product_types :: "string list" where
  "valid_product_types = [''GRD'', ''SLC'', ''OCN'']"

definition valid_orbits :: "string list" where
  "valid_orbits = [''ascending'', ''descending'']"

definition footprint_message :: string where
  "footprint_message =
     ''Please provide a path to the footprint file(use option -aoi) to be used ''
     @ ''as AOI for searching S1 data. The file format can be either Geojson or shapefile''"

definition dates_message :: string where
  "dates_message = ''Please provide a start and an end date to search for data''"

definition product_message :: "string \<Rightarrow> string" where
  "product_message t =
     ''The product specified '' @ t @ '' does not exist.''
     @ '' Valid products: GRD, SLC or OCN''"

definition orbit_message :: "string \<Rightarrow> string" where
  "orbit_message p =
     ''The orbit specified '' @ p @ '' does not exist.''
     @ '' Valid orbits: ascending or descending''"

definition both_message :: string where
  "both_message =
     ''Please make sure valid product types and valid orbits have been specified '' @ newline
     @ '' Valid orbits: ascending or descending '' @ newline
     @ '' valid products: GRD, SLC and OCN''"

text \<open>
  The chain of tests that ends in the binding of \<open>products\<close>. The result \<open>None\<close>
  is the name \<open>products\<close> left unbound; \<open>parser.error\<close> leaves the program.
\<close>

definition main_query :: "world \<Rightarrow> args \<Rightarrow> row list option io" where
  "main_query w a =
     (if \<not> truthy (footprint a) then raise (ParserError footprint_message)
      else if \<not> truthy (start_date a) \<or> \<not> truthy (end_date a) then
        raise (ParserError dates_message)
      else if truthy (product_type a) \<and> \<not> truthy (pass_direction a) then
        (if arg_value (product_type a) \<notin> set valid_product_types then
           bind_io (print [product_message (arg_value (product_type a))]) (\<lambda>_. return None)
         else
           bind_io (query w (arg_value (footprint a)) (arg_value (start_date a))
                      (arg_value (end_date a)) (product_type a) None) (\<lambda>products.
           return (Some products)))
      else if truthy (pass_direction a) \<and> \<not> truthy (product_type a) then
        (if arg_value (pass_direction a) \<notin> set valid_orbits then
           bind_io (print [orbit_message (arg_value (pass_direction a))]) (\<lambda>_. return None)
         else
           bind_io (query w (arg_value (footprint a)) (arg_value (start_date a))
                      (arg_value (end_date a)) None (pass_direction a)) (\<lambda>products.
           return (Some products)))
      else if truthy (pass_direction a) \<and> truthy (product_type a) then
        (if arg_value (pass_direction a) \<notin> set valid_orbits
            \<or> arg_value (product_type a) \<notin> set valid_product_types then
           bind_io (print [both_message]) (\<lambda>_. return None)
         else
           bind_io (query w (arg_value (footprint a)) (arg_value (start_date a))
                      (arg_value (end_date a)) (product_type a) (pass_direction a)) (\<lambda>products.
           return (Some products)))
      else
        bind_io (query w (arg_value (footprint a)) (arg_value (start_date a))
                   (arg_value (end_date a)) None None) (\<lambda>products.
        return (Some products)))"

text \<open>Reading the name \<open>products\<close>: it raises when the name is unbound.\<close>

definition read_products :: "row list option \<Rightarrow> row list io" where
  "read_products b =
     (case b of None \<Rightarrow> raise (NameError ''products'') | Some products \<Rightarrow> return products)"

definition main :: "world \<Rightarrow> args \<Rightarrow> unit io" where
  "main w a =
     bind_io (main_query w a) (\<lambda>b.
     bind_io (if online_flag a
              then bind_io (read_products b) (\<lambda>products. is_online w products)
              else return ()) (\<lambda>_.
     if download_flag a \<and> \<not> truthy (outdir a) then
       bind_io (read_products b) (\<lambda>products. download w products (path_cwd w))
     else if download_flag a \<and> truthy (outdir a) then
       bind_io (read_products b) (\<lambda>products. download w products (arg_value (outdir a)))
     else return ()))"

subsection \<open>The properties as the specification words them\<close>

text \<open>
  The filter keywords that are present, in the words of the specification: the keyword
  \<open>producttype\<close> when a product type is given, the keyword \<open>orbitdirection\<close> when a
  pass direction is given, and no other.
\<close>

definition present_filters :: "string option \<Rightarrow> string option \<Rightarrow> (string \<times> string option) list" where
  "present_filters prod_type pass_dir =
     (case prod_type of None \<Rightarrow> [] | Some t \<Rightarrow> [(''producttype'', Some t)])
     @ (case pass_dir of None \<Rightarrow> [] | Some d \<Rightarrow> [(''orbitdirection'', Some d)])"

text \<open>
  A product type that is given and is none of GRD, SLC, OCN, or a pass direction that is
  given and is none of ascending, descending.
\<close>

definition invalid_filter :: "args \<Rightarrow> bool" where
  "invalid_filter a =
     ((truthy (product_type a) \<and> arg_value (product_type a) \<notin> set valid_product_types)
      \<or> (truthy (pass_direction a) \<and> arg_value (pass_direction a) \<notin> set valid_orbits))"

text \<open>
  A row as the catalogue delivers it: it has the columns title and uuid, and its
  beginposition is a timestamp.
\<close>

definition has_columns :: "row \<Rightarrow> bool" where
  "has_columns r =
     (r ''title'' \<noteq> None \<and> r ''uuid'' \<noteq> None
      \<and> (case r ''beginposition'' of Some (Time t) \<Rightarrow> True | _ \<Rightarrow> False))"

text \<open>The titles that a trace prints on a line of their own.\<close>

fun printed_titles :: "event list \<Rightarrow> string list" where
  "printed_titles [] = []"
| "printed_titles (Print [p] # evs) = p # printed_titles evs"
| "printed_titles (ev # evs) = printed_titles evs"

text \<open>The download calls of a trace: product id and output path, in order.\<close>

fun download_calls :: "event list \<Rightarrow> (cell \<times> string) list" where
  "download_calls [] = []"
| "download_calls (Download api u output # evs) = (u, output) # download_calls evs"
| "download_calls (ev # evs) = download_calls evs"

text \<open>
  What the downloader does for one record, given the product id of its row and the status
  answer to it: for a record reported online the status query, the notice and one
  download call; for a record reported offline the status query and the notice.
\<close>

definition download_step :: "session \<Rightarrow> string \<Rightarrow> cell \<times> odata \<Rightarrow> event list" where
  "download_step api output um =
     (if Online (snd um)
      then [ProductOdata api (fst um),
            Print [''Product '' @ meta_title (snd um) @ '' is online.''],
            Download api (fst um) output]
      else [ProductOdata api (fst um),
            Print [''Product '' @ meta_title (snd um) @ '' is not online.'']])"

text \<open>
  The download of a record goes well when the record is offline, for which there is none,
  or when the download call returns.
\<close>

definition download_ok :: "world \<Rightarrow> session \<Rightarrow> string \<Rightarrow> cell \<times> odata \<Rightarrow> bool" where
  "download_ok w api output um = (Online (snd um) \<longrightarrow> api_download w api (fst um) output)"

text \<open>
  The records that a sequential run reaches: all of them up to the first whose download
  fails, that one included.
\<close>

definition reached :: "world \<Rightarrow> session \<Rightarrow> string \<Rightarrow> (cell \<times> odata) list \<Rightarrow> (cell \<times> odata) list" where
  "reached w api output ums =
     takeWhile (download_ok w api output) ums
     @ take 1 (dropWhile (download_ok w api output) ums)"

subsection \<open>A concrete world\<close>

text \<open>
  A catalogue of three products, the second of them offline, on which the definitions
  are evaluated.
\<close>

definition example_products :: "row list" where
  "example_products =
     [[''title'' \<mapsto> Text ''S1A_one'', ''uuid'' \<mapsto> Text ''id1'', ''beginposition'' \<mapsto> Time 17930],
      [''title'' \<mapsto> Text ''S1B_two'', ''uuid'' \<mapsto> Text ''id2'', ''beginposition'' \<mapsto> Time 17936],
      [''title'' \<mapsto> Text ''S1A_three'', ''uuid'' \<mapsto> Text ''id3'',
       ''beginposition'' \<mapsto> Time 17942]]"

definition example_uuids :: "cell list" where
  "example_uuids = [Text ''id1'', Text ''id2'', Text ''id3'']"

definition example_metas :: "odata list" where
  "example_metas =
     [\<lparr>Online = True, meta_title = ''S1A_one''\<rparr>,
      \<lparr>Online = False, meta_title = ''S1B_two''\<rparr>,
      \<lparr>Online = True, meta_title = ''S1A_three''\<rparr>]"

definition example_world :: world where
  "example_world =
     \<lparr>environ = [''user'' \<mapsto> ''alice'', ''password'' \<mapsto> ''secret''],
      path_cwd = ''/home/alice'',
      read_footprint = (\<lambda>path. if path = ''aoi/AOI.geojson'' then Some ''POLYGON'' else None),
      to_datetime = map_of [(''20190201'', 17928), (''20190816'', 18124)],
      timestamp_str = (\<lambda>t. if t = 17928 then ''2019-02-01 00:00:00''
                           else if t = 18124 then ''2019-08-16 00:00:00'' else ''NaT''),
      strftime = (\<lambda>t fmt. if t = 17930 then ''2019-02-03''
                           else if t = 17936 then ''2019-02-09'' else ''2019-02-15''),
      api_query = (\<lambda>api c. Some example_products),
      get_product_odata = (\<lambda>api u. map_of (zip example_uuids example_metas) u),
      api_download = (\<lambda>api u output. True)\<rparr>"

text \<open>The same world with a catalogue that fails to deliver the first product.\<close>

definition failing_world :: world where
  "failing_world = example_world\<lparr>api_download := (\<lambda>api u output. u \<noteq> Text ''id1'')\<rparr>"

definition example_args :: args where
  "example_args =
     \<lparr>outdir = None, footprint = Some ''aoi/AOI.geojson'', start_date = Some ''20190201'',
      end_date = Some ''20190816'', product_type = None, pass_direction = None,
      download_flag = False, online_flag = False\<rparr>"

definition scihub :: session where
  "scihub = SentinelAPI ''alice'' ''secret'' ''https://scihub.copernicus.eu/dhus/''"

section \<open>Properties\<close>

subsection \<open>Sequencing and collaborators\<close>

lemma bind_io_Inl [simp]: "bind_io (t, Inl e) f = (t, Inl e)"
  by (simp add: bind_io_def)

lemma bind_io_Inr [simp]: "bind_io (t, Inr a) f = (t @ fst (f a), snd (f a))"
  by (simp add: bind_io_def split: prod.split)

lemma bind_io_return [simp]: "bind_io (return a) f = f a"
  by (simp add: return_def)

lemma bind_io_raise [simp]: "bind_io (raise e) f = raise e"
  by (simp add: raise_def)

lemma bind_io_emit [simp]: "bind_io (emit ev) f = (ev # fst (f ()), snd (f ()))"
  by (simp add: emit_def)

lemma bind_io_print [simp]: "bind_io (print xs) f = (Print xs # fst (f ()), snd (f ()))"
  by (simp add: print_def)

lemma fst_return [simp]: "fst (return a) = []"
  by (simp add: return_def)

lemma snd_return [simp]: "snd (return a) = Inr a"
  by (simp add: return_def)

lemma fst_raise [simp]: "fst (raise e) = []"
  by (simp add: raise_def)

lemma snd_raise [simp]: "snd (raise e) = Inl e"
  by (simp add: raise_def)

lemma snd_bind_io:
  "snd m = Inr a \<Longrightarrow> snd (bind_io m f) = snd (f a)"
  by (cases m) simp

lemma fst_bind_io:
  "snd m = Inr a \<Longrightarrow> fst (bind_io m f) = fst m @ fst (f a)"
  by (cases m) simp

lemma getenv_None: "environ w k = None \<Longrightarrow> getenv w k = ([Getenv k], Inl (KeyError k))"
  by (simp add: getenv_def)

lemma getenv_Some: "environ w k = Some v \<Longrightarrow> getenv w k = ([Getenv k], Inr v)"
  by (simp add: getenv_def)

lemma sentinel_api_eq:
  "sentinel_api u p =
     ([NewSession (SentinelAPI u p ''https://scihub.copernicus.eu/dhus/'')],
      Inr (SentinelAPI u p ''https://scihub.copernicus.eu/dhus/''))"
  by (simp add: sentinel_api_def Let_def)

lemma print_each_eq: "print_each ps = (map (\<lambda>p. Print [p]) ps, Inr ())"
  by (induction ps) (simp_all add: return_def)

lemma str_nat_0: "str_nat 0 = ''0''"
  by (simp add: str_nat.simps digit_def)

lemma str_nat_3: "str_nat 3 = ''3''"
  by (simp add: str_nat.simps digit_def)


lemma product_odata_Some:
  "get_product_odata w api u = Some m \<Longrightarrow> product_odata w api u = ([ProductOdata api u], Inr m)"
  by (simp add: product_odata_def)

lemma product_odata_None:
  "get_product_odata w api u = None
   \<Longrightarrow> product_odata w api u = ([ProductOdata api u], Inl (ApiError ''get_product_odata''))"
  by (simp add: product_odata_def)

lemma download_product_True:
  "api_download w api u output \<Longrightarrow> download_product w api u output = ([Download api u output], Inr ())"
  by (simp add: download_product_def)

lemma download_product_False:
  "\<not> api_download w api u output
   \<Longrightarrow> download_product w api u output = ([Download api u output], Inl (ApiError ''download''))"
  by (simp add: download_product_def)

lemma has_columns_beginposition:
  "has_columns r \<Longrightarrow> \<exists>t. r ''beginposition'' = Some (Time t)"
  by (simp add: has_columns_def split: option.splits cell.splits)

lemma select_columns_ok:
  assumes "has_columns r"
  shows "select_columns r [''title'', ''uuid'', ''beginposition'']
    = ([], Inr (r |` {''title'', ''uuid'', ''beginposition''}))"
proof -
  from assms obtain t where "r ''beginposition'' = Some (Time t)"
    using has_columns_beginposition by blast
  with assms show ?thesis
    by (auto simp add: select_columns_def has_columns_def return_def)
qed

lemma getitem_selected:
  "r label = Some c \<Longrightarrow> label \<in> S \<Longrightarrow> getitem (r |` S) label = ([], Inr c)"
  by (simp add: getitem_def return_def)

lemma cell_strftime_Time: "cell_strftime w (Time t) fmt = ([], Inr (strftime w t fmt))"
  by (simp add: cell_strftime_def return_def)

lemma is_online_rows_Cons:
  assumes "has_columns r" and "r ''uuid'' = Some u"
  shows "is_online_rows w api (r # rows) on off =
     bind_io (product_odata w api u) (\<lambda>meta.
       if Online meta then is_online_rows w api rows (on @ [meta_title meta]) off
       else is_online_rows w api rows on (off @ [meta_title meta]))"
proof -
  from assms(1) obtain t where t: "r ''beginposition'' = Some (Time t)"
    using has_columns_beginposition by blast
  have date: "getitem (r |` {''title'', ''uuid'', ''beginposition''}) ''beginposition''
      = ([], Inr (Time t))"
    using t by (simp add: getitem_selected)
  have uuid: "getitem (r |` {''title'', ''uuid'', ''beginposition''}) ''uuid'' = ([], Inr u)"
    using assms(2) by (simp add: getitem_selected)
  show ?thesis
    by (simp add: select_columns_ok [OF assms(1)] date uuid cell_strftime_Time cong: if_cong)
qed

lemma download_rows_Cons:
  assumes "has_columns r" and "r ''uuid'' = Some u"
  shows "download_rows w api (r # rows) output =
     bind_io (product_odata w api u) (\<lambda>meta.
     bind_io
       (if Online meta then
          bind_io (print [''Product '' @ meta_title meta @ '' is online.'']) (\<lambda>_.
          download_product w api u output)
        else print [''Product '' @ meta_title meta @ '' is not online.''])
       (\<lambda>_. download_rows w api rows output))"
proof -
  from assms(1) obtain t where t: "r ''beginposition'' = Some (Time t)"
    using has_columns_beginposition by blast
  have date: "getitem (r |` {''title'', ''uuid'', ''beginposition''}) ''beginposition''
      = ([], Inr (Time t))"
    using t by (simp add: getitem_selected)
  have uuid: "getitem (r |` {''title'', ''uuid'', ''beginposition''}) ''uuid'' = ([], Inr u)"
    using assms(2) by (simp add: getitem_selected)
  show ?thesis
    by (simp add: select_columns_ok [OF assms(1)] date uuid cell_strftime_Time cong: if_cong)
qed

text \<open>
  A row whose beginposition is \<open>NaT\<close> stops either loop before the status query, and so
  does a row of a table without that column.
\<close>

lemma is_online_rows_NaT:
  assumes "r ''title'' = Some c" and "r ''uuid'' = Some u" and "r ''beginposition'' = Some NaT"
  shows "is_online_rows w api (r # rows) on off
    = ([], Inl (ValueError ''NaTType does not support strftime''))"
  using assms
  by (simp add: select_columns_def getitem_def cell_strftime_def return_def raise_def)

lemma download_rows_NaT:
  assumes "r ''title'' = Some c" and "r ''uuid'' = Some u" and "r ''beginposition'' = Some NaT"
  shows "download_rows w api (r # rows) output
    = ([], Inl (ValueError ''NaTType does not support strftime''))"
  using assms
  by (simp add: select_columns_def getitem_def cell_strftime_def return_def raise_def)

lemma is_online_rows_no_column:
  assumes "r ''title'' = Some c" and "r ''uuid'' = Some u" and "r ''beginposition'' = None"
  shows "is_online_rows w api (r # rows) on off = ([], Inl (NotInIndex [''beginposition'']))"
  using assms
  by (simp add: select_columns_def raise_def)

lemma is_online_rows_eq:
  assumes "\<forall>r \<in> set rows. has_columns r"
    and "map (\<lambda>r. r ''uuid'') rows = map Some uuids"
    and "map (get_product_odata w api) uuids = map Some metas"
  shows "is_online_rows w api rows on off =
     (map (ProductOdata api) uuids,
      Inr (on @ map meta_title (filter Online metas),
           off @ map meta_title (filter (\<lambda>m. \<not> Online m) metas)))"
  using assms
proof (induction rows arbitrary: uuids metas on off)
  case Nil
  then show ?case by (simp add: return_def)
next
  case (Cons r rows)
  from Cons.prems(2) obtain u us where us: "uuids = u # us" "r ''uuid'' = Some u"
    "map (\<lambda>r. r ''uuid'') rows = map Some us"
    by (cases uuids) auto
  from Cons.prems(3) us(1) obtain m ms where ms: "metas = m # ms"
    "get_product_odata w api u = Some m" "map (get_product_odata w api) us = map Some ms"
    by (cases metas) auto
  from Cons.prems(1) have cols: "has_columns r" and rest: "\<forall>r \<in> set rows. has_columns r"
    by simp_all
  show ?case
    by (subst is_online_rows_Cons [OF cols us(2)])
      (simp add: us(1) ms(1) product_odata_Some [OF ms(2)] Cons.IH [OF rest us(3) ms(3)])
qed

lemma reached_Cons_ok:
  "download_ok w api dir um \<Longrightarrow> reached w api dir (um # ums) = um # reached w api dir ums"
  by (simp add: reached_def)

lemma reached_Cons_fail:
  "\<not> download_ok w api dir um \<Longrightarrow> reached w api dir (um # ums) = [um]"
  by (simp add: reached_def)

lemma reached_all:
  "list_all (download_ok w api dir) ums \<Longrightarrow> reached w api dir ums = ums"
  by (induction ums) (simp_all add: reached_def)

lemma download_step_online:
  "Online m \<Longrightarrow> download_step api dir (u, m)
     = [ProductOdata api u, Print [''Product '' @ meta_title m @ '' is online.''],
        Download api u dir]"
  by (simp add: download_step_def)

lemma download_step_offline:
  "\<not> Online m \<Longrightarrow> download_step api dir (u, m)
     = [ProductOdata api u, Print [''Product '' @ meta_title m @ '' is not online.'']]"
  by (simp add: download_step_def)

lemma download_rows_eq:
  assumes "\<forall>r \<in> set rows. has_columns r"
    and "map (\<lambda>r. r ''uuid'') rows = map Some uuids"
    and "map (get_product_odata w api) uuids = map Some metas"
  shows "download_rows w api rows dir =
     (concat (map (download_step api dir) (reached w api dir (zip uuids metas))),
      if list_all (download_ok w api dir) (zip uuids metas) then Inr ()
      else Inl (ApiError ''download''))"
  using assms
proof (induction rows arbitrary: uuids metas)
  case Nil
  then show ?case by (simp add: return_def reached_def)
next
  case (Cons r rows)
  from Cons.prems(2) obtain u us where us: "uuids = u # us" "r ''uuid'' = Some u"
    "map (\<lambda>r. r ''uuid'') rows = map Some us"
    by (cases uuids) auto
  from Cons.prems(3) us(1) obtain m ms where ms: "metas = m # ms"
    "get_product_odata w api u = Some m" "map (get_product_odata w api) us = map Some ms"
    by (cases metas) auto
  from Cons.prems(1) have cols: "has_columns r" and rest: "\<forall>r \<in> set rows. has_columns r"
    by simp_all
  note row = download_rows_Cons [OF cols us(2)]
  note step = us(1) ms(1) product_odata_Some [OF ms(2)] Cons.IH [OF rest us(3) ms(3)]
  show ?case
  proof (cases "download_ok w api dir (u, m)")
    case ok: True
    show ?thesis
    proof (cases "Online m")
      case True
      with ok have "api_download w api u dir"
        by (simp add: download_ok_def)
      with True ok show ?thesis
        by (subst row) (simp add: step reached_Cons_ok download_step_online download_step_offline download_product_True)
    next
      case False
      with ok show ?thesis
        by (subst row) (simp add: step reached_Cons_ok download_step_online download_step_offline)
    qed
  next
    case fail: False
    then have "Online m" and "\<not> api_download w api u dir"
      by (simp_all add: download_ok_def)
    with fail show ?thesis
      by (subst row) (simp add: step reached_Cons_fail download_step_online download_step_offline download_product_False)
  qed
qed

lemma geojson_wkt_Some:
  "read_footprint w path = Some g \<Longrightarrow> geojson_wkt w path = ([ReadFootprint path], Inr g)"
  by (simp add: geojson_wkt_def)

lemma geojson_wkt_None:
  "read_footprint w path = None
   \<Longrightarrow> geojson_wkt w path = ([ReadFootprint path], Inl (ApiError ''read_geojson''))"
  by (simp add: geojson_wkt_def)

lemma dates_to_datetime_Some:
  "to_datetime w d0 = Some t0 \<Longrightarrow> to_datetime w d1 = Some t1
   \<Longrightarrow> dates_to_datetime w d0 d1 = ([], Inr (t0, t1))"
  by (simp add: dates_to_datetime_def return_def)

lemma search_Some:
  "api_query w api c = Some ps \<Longrightarrow> search w api c = ([Search api c], Inr ps)"
  by (simp add: search_def)

lemma sublist_date_message:
  "sublist s0 (date_message s0 s1) \<and> sublist s1 (date_message s0 s1)"
  unfolding date_message_def sublist_def
  by (metis append.assoc append_Nil2)


lemma printed_titles_append:
  "printed_titles (xs @ ys) = printed_titles xs @ printed_titles ys"
  by (induction xs rule: printed_titles.induct) simp_all

lemma printed_titles_each: "printed_titles (map (\<lambda>p. Print [p]) ps) = ps"
  by (induction ps) simp_all

lemma printed_titles_odata: "printed_titles (map (ProductOdata api) us) = []"
  by (induction us) simp_all

lemma download_calls_append:
  "download_calls (xs @ ys) = download_calls xs @ download_calls ys"
  by (induction xs rule: download_calls.induct) simp_all

lemma download_calls_steps:
  "download_calls (concat (map (download_step api dir) ums))
     = map (\<lambda>um. (fst um, dir)) (filter (\<lambda>um. Online (snd um)) ums)"
  by (induction ums) (simp_all add: download_calls_append download_step_def)

lemma filter_zip_snd:
  "length xs = length ys \<Longrightarrow> filter P ys = map snd (filter (\<lambda>xy. P (snd xy)) (zip xs ys))"
  by (induction xs ys rule: list_induct2) simp_all

lemma is_online_report_titles:
  "snd (is_online_report on off) = Inr ()
   \<and> printed_titles (fst (is_online_report on off)) = on @ off"
  by (simp add: is_online_report_def print_each_eq printed_titles_each printed_titles_append)

text \<open>
  C10. When the environment variable \<open>user\<close> is unset, each of query, is_online and
  download raises \<open>KeyError\<close> for it after the lookup of \<open>user\<close> alone; when
  \<open>user\<close> is set and \<open>password\<close> is unset, each raises \<open>KeyError\<close> for
  \<open>password\<close> after the two lookups. In both cases nothing else has happened: no
  date has been parsed or compared and no remote call has been made. When both are set,
  each of the three operations begins by reading the two variables and building a
  session of its own from them.
\<close>

theorem credentials_lookup:
  "(environ w ''user'' = None \<longrightarrow>
      query w fp s e pt pd = ([Getenv ''user''], Inl (KeyError ''user''))
      \<and> is_online w products = ([Getenv ''user''], Inl (KeyError ''user''))
      \<and> download w products dir = ([Getenv ''user''], Inl (KeyError ''user'')))
   \<and> (environ w ''user'' = Some u \<and> environ w ''password'' = None \<longrightarrow>
      query w fp s e pt pd = ([Getenv ''user'', Getenv ''password''], Inl (KeyError ''password''))
      \<and> is_online w products = ([Getenv ''user'', Getenv ''password''], Inl (KeyError ''password''))
      \<and> download w products dir
          = ([Getenv ''user'', Getenv ''password''], Inl (KeyError ''password'')))
   \<and> (environ w ''user'' = Some u \<and> environ w ''password'' = Some p \<longrightarrow>
      take 3 (trace (query w fp s e pt pd))
        = [Getenv ''user'', Getenv ''password'',
           NewSession (SentinelAPI u p ''https://scihub.copernicus.eu/dhus/'')]
      \<and> take 3 (trace (is_online w products))
        = [Getenv ''user'', Getenv ''password'',
           NewSession (SentinelAPI u p ''https://scihub.copernicus.eu/dhus/'')]
      \<and> take 3 (trace (download w products dir))
        = [Getenv ''user'', Getenv ''password'',
           NewSession (SentinelAPI u p ''https://scihub.copernicus.eu/dhus/'')])"
  by (simp add: query_def is_online_def download_def getenv_None getenv_Some
      sentinel_api_eq trace_def)

text \<open>
  C8. An invocation without the footprint, without the start date or without the end
  date ends in \<open>parser.error\<close> with the message for the footprint or for the dates,
  and the trace is empty: no query, no lookup and no remote call has been made.
\<close>

theorem missing_arguments:
  "footprint a = None \<or> start_date a = None \<or> end_date a = None \<Longrightarrow>
   main w a = ([], Inl (ParserError (if truthy (footprint a) then dates_message
                                      else footprint_message)))"
  by (auto simp add: main_def main_query_def raise_def)

text \<open>
  C6. On the empty result set the availability checker asks for no status and the
  downloader asks for no status and downloads nothing, whatever the world is. With the
  credentials set, the checker prints the summary with the counts 0 and 0 followed by
  the two group headings, and the downloader does nothing after building its session.
\<close>

theorem empty_result_set:
  "(\<forall>api x. ProductOdata api x \<notin> set (trace (is_online w [])))
   \<and> (\<forall>api x y. ProductOdata api x \<notin> set (trace (download w [] dir))
        \<and> Download api x y \<notin> set (trace (download w [] dir)))
   \<and> (environ w ''user'' = Some u \<and> environ w ''password'' = Some p \<longrightarrow>
        is_online w []
          = ([Getenv ''user'', Getenv ''password'',
              NewSession (SentinelAPI u p ''https://scihub.copernicus.eu/dhus/''),
              Print [''0 online and 0 offline products have been found'', newline],
              Print [''Online products'', newline],
              Print [''offline products'', newline]], Inr ())
        \<and> download w [] dir
          = ([Getenv ''user'', Getenv ''password'',
              NewSession (SentinelAPI u p ''https://scihub.copernicus.eu/dhus/'')], Inr ()))"
proof -
  have a: "\<forall>api x. ProductOdata api x \<notin> set (trace (is_online w []))"
    by (cases "environ w ''user''"; cases "environ w ''password''")
      (simp_all add: is_online_def getenv_None getenv_Some sentinel_api_eq trace_def
        is_online_report_def return_def)
  have b: "\<forall>api x y. ProductOdata api x \<notin> set (trace (download w [] dir))
        \<and> Download api x y \<notin> set (trace (download w [] dir))"
    by (cases "environ w ''user''"; cases "environ w ''password''")
      (simp_all add: download_def getenv_None getenv_Some sentinel_api_eq trace_def return_def)
  have c: "environ w ''user'' = Some u \<and> environ w ''password'' = Some p \<longrightarrow>
        is_online w []
          = ([Getenv ''user'', Getenv ''password'',
              NewSession (SentinelAPI u p ''https://scihub.copernicus.eu/dhus/''),
              Print [''0 online and 0 offline products have been found'', newline],
              Print [''Online products'', newline],
              Print [''offline products'', newline]], Inr ())
        \<and> download w [] dir
          = ([Getenv ''user'', Getenv ''password'',
              NewSession (SentinelAPI u p ''https://scihub.copernicus.eu/dhus/'')], Inr ())"
    by (simp add: is_online_def download_def getenv_Some sentinel_api_eq
        is_online_report_def return_def str_nat_0)
  from a b c show ?thesis by blast
qed


theorem credentials_lookup_witness:
  "environ (example_world\<lparr>environ := Map.empty\<rparr>) ''user'' = None
   \<and> query (example_world\<lparr>environ := Map.empty\<rparr>) ''aoi/AOI.geojson'' ''20190201'' ''20190816''
        None None = ([Getenv ''user''], Inl (KeyError ''user''))
   \<and> environ (example_world\<lparr>environ := [''user'' \<mapsto> ''alice'']\<rparr>) ''password'' = None
   \<and> is_online (example_world\<lparr>environ := [''user'' \<mapsto> ''alice'']\<rparr>) example_products
        = ([Getenv ''user'', Getenv ''password''], Inl (KeyError ''password''))
   \<and> environ example_world ''user'' = Some ''alice''
   \<and> environ example_world ''password'' = Some ''secret''
   \<and> take 3 (trace (download example_world example_products ''out''))
        = [Getenv ''user'', Getenv ''password'', NewSession scihub]"
  using credentials_lookup [where w = "example_world\<lparr>environ := Map.empty\<rparr>"
      and fp = "''aoi/AOI.geojson''" and s = "''20190201''" and e = "''20190816''"
      and pt = None and pd = None]
    credentials_lookup [where w = "example_world\<lparr>environ := [''user'' \<mapsto> ''alice'']\<rparr>"
      and u = "''alice''" and products = example_products]
    credentials_lookup [where w = example_world and u = "''alice''" and p = "''secret''"
      and products = example_products and dir = "''out''"]
  by (simp add: example_world_def scihub_def)

theorem missing_arguments_witness:
  "footprint (example_args\<lparr>footprint := None\<rparr>) = None
   \<and> main example_world (example_args\<lparr>footprint := None\<rparr>)
       = ([], Inl (ParserError footprint_message))
   \<and> end_date (example_args\<lparr>end_date := None\<rparr>) = None
   \<and> main example_world (example_args\<lparr>end_date := None\<rparr>)
       = ([], Inl (ParserError dates_message))"
  using missing_arguments [of "example_args\<lparr>footprint := None\<rparr>" example_world]
    missing_arguments [of "example_args\<lparr>end_date := None\<rparr>" example_world]
  by (simp add: example_args_def)

theorem empty_result_set_witness:
  "environ example_world ''user'' = Some ''alice''
   \<and> environ example_world ''password'' = Some ''secret''
   \<and> is_online example_world []
       = ([Getenv ''user'', Getenv ''password'', NewSession scihub,
           Print [''0 online and 0 offline products have been found'', newline],
           Print [''Online products'', newline],
           Print [''offline products'', newline]], Inr ())
   \<and> download example_world [] ''out''
       = ([Getenv ''user'', Getenv ''password'', NewSession scihub], Inr ())"
  using empty_result_set [where w = example_world and u = "''alice''" and p = "''secret''"
      and dir = "''out''"]
  by (simp add: example_world_def scihub_def)


text \<open>
  C1. When the two dates parse and the start date is not earlier than the end date,
  query issues no search call and ends in an error, whatever the world is. When the
  credentials are set and the footprint file is read, that error is the assertion
  failure, raised after the footprint has been read, and its message contains the
  rendering of both dates.
\<close>

theorem reversed_dates_rejected:
  assumes "to_datetime w s = Some t0" and "to_datetime w e = Some t1" and "t1 \<le> t0"
  shows "(\<forall>api c. Search api c \<notin> set (trace (query w fp s e pt pd)))
    \<and> (\<exists>err. outcome (query w fp s e pt pd) = Inl err)
    \<and> (environ w ''user'' = Some u \<and> environ w ''password'' = Some p
         \<and> read_footprint w fp = Some g \<longrightarrow>
         query w fp s e pt pd
           = ([Getenv ''user'', Getenv ''password'',
               NewSession (SentinelAPI u p ''https://scihub.copernicus.eu/dhus/''),
               ReadFootprint fp],
              Inl (AssertionError (date_message (timestamp_str w t0) (timestamp_str w t1))))
         \<and> sublist (timestamp_str w t0) (date_message (timestamp_str w t0) (timestamp_str w t1))
         \<and> sublist (timestamp_str w t1) (date_message (timestamp_str w t0) (timestamp_str w t1)))"
proof -
  have dates: "dates_to_datetime w s e = ([], Inr (t0, t1))"
    using assms(1,2) by (rule dates_to_datetime_Some)
  have no: "\<not> t0 < t1"
    using assms(3) by simp
  have both: "(\<forall>api c. Search api c \<notin> set (fst (query w fp s e pt pd)))
      \<and> (\<exists>err. snd (query w fp s e pt pd) = Inl err)"
    by (cases "environ w ''user''"; cases "environ w ''password''"; cases "read_footprint w fp")
      (simp_all add: query_def getenv_None getenv_Some sentinel_api_eq geojson_wkt_None
        geojson_wkt_Some dates no py_assert_def)
  have full: "environ w ''user'' = Some u \<and> environ w ''password'' = Some p
         \<and> read_footprint w fp = Some g \<longrightarrow>
         query w fp s e pt pd
           = ([Getenv ''user'', Getenv ''password'',
               NewSession (SentinelAPI u p ''https://scihub.copernicus.eu/dhus/''),
               ReadFootprint fp],
              Inl (AssertionError (date_message (timestamp_str w t0) (timestamp_str w t1))))"
    by (simp add: query_def getenv_Some sentinel_api_eq geojson_wkt_Some dates no py_assert_def
        raise_def)
  from both full sublist_date_message [of "timestamp_str w t0" "timestamp_str w t1"]
  show ?thesis
    by (simp add: trace_def outcome_def)
qed

theorem reversed_dates_rejected_witness:
  "to_datetime example_world ''20190816'' = Some 18124
   \<and> to_datetime example_world ''20190201'' = Some 17928
   \<and> (17928::int) \<le> 18124
   \<and> query example_world ''aoi/AOI.geojson'' ''20190816'' ''20190201'' None (Some ''ascending'')
       = ([Getenv ''user'', Getenv ''password'', NewSession scihub,
           ReadFootprint ''aoi/AOI.geojson''],
          Inl (AssertionError (''The start date 2019-08-16 00:00:00''
                               @ '' must be smaller than the end date 2019-02-01 00:00:00'')))"
  using reversed_dates_rejected [where w = example_world and s = "''20190816''"
      and e = "''20190201''" and ?t0.0 = 18124 and ?t1.0 = 17928 and u = "''alice''"
      and p = "''secret''" and fp = "''aoi/AOI.geojson''" and g = "''POLYGON''"
      and pt = None and pd = "Some ''ascending''"]
  by (simp add: example_world_def scihub_def date_message_def)

text \<open>
  C4. With the credentials set, every row having the columns title and uuid and a
  timestamp as beginposition, and an answer to every status query, the availability
  checker asks once for each row in the order of the result set, puts the title of each
  answer in the online group when the answer says online and in the offline group
  otherwise, both groups in the order of the result set; the sizes of the two groups add
  up to the number of rows; the checker ends normally; and the titles are printed group
  by group in that order. When each answer carries the title of its row, the groups are
  the titles of the rows.
\<close>

theorem availability_partition:
  assumes "environ w ''user'' = Some u" and "environ w ''password'' = Some p"
    and "\<forall>r \<in> set products. has_columns r"
    and "map (\<lambda>r. r ''uuid'') products = map Some uuids"
    and "map (get_product_odata w (SentinelAPI u p ''https://scihub.copernicus.eu/dhus/''))
           uuids = map Some metas"
  shows "is_online_rows w (SentinelAPI u p ''https://scihub.copernicus.eu/dhus/'') products [] []
      = (map (ProductOdata (SentinelAPI u p ''https://scihub.copernicus.eu/dhus/'')) uuids,
         Inr (map meta_title (filter Online metas),
              map meta_title (filter (\<lambda>m. \<not> Online m) metas)))
    \<and> length (filter Online metas) + length (filter (\<lambda>m. \<not> Online m) metas) = length products
    \<and> outcome (is_online w products) = Inr ()
    \<and> printed_titles (trace (is_online w products))
        = map meta_title (filter Online metas) @ map meta_title (filter (\<lambda>m. \<not> Online m) metas)
    \<and> ((\<forall>rm \<in> set (zip products metas). fst rm ''title'' = Some (Text (meta_title (snd rm)))) \<longrightarrow>
          map (\<lambda>t. Some (Text t)) (map meta_title (filter Online metas))
            = map (\<lambda>rm. fst rm ''title'') (filter (\<lambda>rm. Online (snd rm)) (zip products metas))
          \<and> map (\<lambda>t. Some (Text t)) (map meta_title (filter (\<lambda>m. \<not> Online m) metas))
            = map (\<lambda>rm. fst rm ''title'')
                (filter (\<lambda>rm. \<not> Online (snd rm)) (zip products metas)))"
proof -
  let ?api = "SentinelAPI u p ''https://scihub.copernicus.eu/dhus/''"
  let ?on = "map meta_title (filter Online metas)"
  let ?off = "map meta_title (filter (\<lambda>m. \<not> Online m) metas)"
  have "length products = length uuids"
    using assms(4) by (metis length_map)
  moreover have "length uuids = length metas"
    using assms(5) by (metis length_map)
  ultimately have len: "length products = length metas"
    by simp
  have rows: "is_online_rows w ?api products [] []
      = (map (ProductOdata ?api) uuids, Inr (?on, ?off))"
    using is_online_rows_eq [OF assms(3,4,5), of "[]" "[]"] by simp
  have sizes: "length (filter Online metas) + length (filter (\<lambda>m. \<not> Online m) metas)
      = length products"
    using len sum_length_filter_compl [of Online metas] by simp
  have report: "snd (is_online_report ?on ?off) = Inr ()
      \<and> printed_titles (fst (is_online_report ?on ?off)) = ?on @ ?off"
    by (rule is_online_report_titles)
  have whole: "is_online w products
      = ([Getenv ''user'', Getenv ''password'', NewSession ?api]
         @ map (ProductOdata ?api) uuids
         @ fst (is_online_report ?on ?off), snd (is_online_report ?on ?off))"
    by (simp add: is_online_def getenv_Some assms(1,2) sentinel_api_eq rows)
  have printed: "printed_titles (trace (is_online w products)) = ?on @ ?off"
    by (simp add: whole trace_def printed_titles_append printed_titles_odata report)
  have ok: "outcome (is_online w products) = Inr ()"
    by (simp add: whole outcome_def report)
  have titles: "(\<forall>rm \<in> set (zip products metas).
          fst rm ''title'' = Some (Text (meta_title (snd rm)))) \<longrightarrow>
          map (\<lambda>t. Some (Text t)) ?on
            = map (\<lambda>rm. fst rm ''title'') (filter (\<lambda>rm. Online (snd rm)) (zip products metas))
          \<and> map (\<lambda>t. Some (Text t)) ?off
            = map (\<lambda>rm. fst rm ''title'')
                (filter (\<lambda>rm. \<not> Online (snd rm)) (zip products metas))"
    by (simp add: filter_zip_snd [OF len, of Online]
        filter_zip_snd [OF len, of "\<lambda>m. \<not> Online m"])
  from rows sizes ok printed titles show ?thesis
    by blast
qed

lemma example_count: "str_nat (length example_products) = ''3''"
proof -
  have "length example_products = 3"
    by (simp add: example_products_def)
  then show ?thesis
    by (simp only: str_nat_3)
qed

lemma example_columns: "\<forall>r \<in> set example_products. has_columns r"
  by (simp add: example_products_def has_columns_def)

lemma example_ids: "map (\<lambda>r. r ''uuid'') example_products = map Some example_uuids"
  by (simp add: example_products_def example_uuids_def)

lemma example_answers:
  "map (get_product_odata example_world scihub) example_uuids = map Some example_metas"
  by (simp add: example_world_def example_uuids_def example_metas_def)

lemma example_creds:
  "environ example_world ''user'' = Some ''alice''"
  "environ example_world ''password'' = Some ''secret''"
  by (simp_all add: example_world_def)

theorem availability_partition_witness:
  "environ example_world ''user'' = Some ''alice''
   \<and> environ example_world ''password'' = Some ''secret''
   \<and> has_columns (example_products ! 0) \<and> has_columns (example_products ! 1)
   \<and> has_columns (example_products ! 2)
   \<and> map (\<lambda>r. r ''uuid'') example_products = map Some example_uuids
   \<and> map (get_product_odata example_world scihub) example_uuids = map Some example_metas
   \<and> is_online_rows example_world scihub example_products [] []
       = ([ProductOdata scihub (Text ''id1''), ProductOdata scihub (Text ''id2''),
           ProductOdata scihub (Text ''id3'')],
          Inr ([''S1A_one'', ''S1A_three''], [''S1B_two'']))
   \<and> printed_titles (trace (is_online example_world example_products))
       = [''S1A_one'', ''S1A_three'', ''S1B_two'']
   \<and> outcome (is_online example_world example_products) = Inr ()"
proof -
  have cols: "has_columns (example_products ! 0)" "has_columns (example_products ! 1)"
    "has_columns (example_products ! 2)"
    by (simp_all add: example_products_def has_columns_def)
  have result: "is_online_rows example_world scihub example_products [] []
       = ([ProductOdata scihub (Text ''id1''), ProductOdata scihub (Text ''id2''),
           ProductOdata scihub (Text ''id3'')],
          Inr ([''S1A_one'', ''S1A_three''], [''S1B_two'']))
   \<and> printed_titles (trace (is_online example_world example_products))
       = [''S1A_one'', ''S1A_three'', ''S1B_two'']
   \<and> outcome (is_online example_world example_products) = Inr ()"
    using availability_partition [OF example_creds example_columns example_ids
        example_answers [unfolded scihub_def]]
    by (simp add: scihub_def example_uuids_def example_metas_def)
  from example_creds cols example_ids example_answers result show ?thesis
    by blast
qed

text \<open>
  C5. With the credentials set, every row having the columns title and uuid and a
  timestamp as beginposition, and an answer to every status query, the downloader goes
  through the rows in order up to the first download that fails, or to the end when none
  does: for a row reported online it asks for the status, prints that the product is
  online and makes one download call with the output directory; for a row reported
  offline it asks for the status and prints that the product is not online, with no
  download call. It ends normally when no download fails, and with the error of the
  failed download otherwise, after the one call made for that row.
\<close>

theorem download_each_online:
  assumes "environ w ''user'' = Some u" and "environ w ''password'' = Some p"
    and "\<forall>r \<in> set products. has_columns r"
    and "map (\<lambda>r. r ''uuid'') products = map Some uuids"
    and "map (get_product_odata w (SentinelAPI u p ''https://scihub.copernicus.eu/dhus/''))
           uuids = map Some metas"
  shows "download w products dir
      = ([Getenv ''user'', Getenv ''password'',
          NewSession (SentinelAPI u p ''https://scihub.copernicus.eu/dhus/'')]
         @ concat (map (download_step (SentinelAPI u p ''https://scihub.copernicus.eu/dhus/'') dir)
                     (reached w (SentinelAPI u p ''https://scihub.copernicus.eu/dhus/'') dir
                        (zip uuids metas))),
         if list_all (download_ok w (SentinelAPI u p ''https://scihub.copernicus.eu/dhus/'') dir)
              (zip uuids metas)
         then Inr () else Inl (ApiError ''download''))
    \<and> download_calls (trace (download w products dir))
        = map (\<lambda>um. (fst um, dir))
            (filter (\<lambda>um. Online (snd um))
               (reached w (SentinelAPI u p ''https://scihub.copernicus.eu/dhus/'') dir
                  (zip uuids metas)))
    \<and> (list_all (download_ok w (SentinelAPI u p ''https://scihub.copernicus.eu/dhus/'') dir)
          (zip uuids metas) \<longrightarrow>
        reached w (SentinelAPI u p ''https://scihub.copernicus.eu/dhus/'') dir (zip uuids metas)
          = zip uuids metas)"
proof -
  let ?api = "SentinelAPI u p ''https://scihub.copernicus.eu/dhus/''"
  let ?ums = "zip uuids metas"
  have rows: "download_rows w ?api products dir
      = (concat (map (download_step ?api dir) (reached w ?api dir ?ums)),
         if list_all (download_ok w ?api dir) ?ums then Inr () else Inl (ApiError ''download''))"
    using assms(3,4,5) by (rule download_rows_eq)
  have whole: "download w products dir
      = ([Getenv ''user'', Getenv ''password'', NewSession ?api]
         @ concat (map (download_step ?api dir) (reached w ?api dir ?ums)),
         if list_all (download_ok w ?api dir) ?ums then Inr () else Inl (ApiError ''download''))"
    by (simp add: download_def getenv_Some assms(1,2) sentinel_api_eq rows)
  have calls: "download_calls (trace (download w products dir))
      = map (\<lambda>um. (fst um, dir)) (filter (\<lambda>um. Online (snd um)) (reached w ?api dir ?ums))"
    by (simp add: whole trace_def download_calls_steps)
  have all: "list_all (download_ok w ?api dir) ?ums \<longrightarrow> reached w ?api dir ?ums = ?ums"
    by (simp add: reached_all)
  from whole calls all show ?thesis
    by blast
qed

lemma failing_answers:
  "map (get_product_odata failing_world scihub) example_uuids = map Some example_metas"
  by (simp add: failing_world_def example_world_def example_uuids_def example_metas_def)

lemma failing_creds:
  "environ failing_world ''user'' = Some ''alice''"
  "environ failing_world ''password'' = Some ''secret''"
  by (simp_all add: failing_world_def example_world_def)

theorem download_each_online_witness:
  "environ example_world ''user'' = Some ''alice''
   \<and> environ example_world ''password'' = Some ''secret''
   \<and> has_columns (example_products ! 0) \<and> has_columns (example_products ! 1)
   \<and> has_columns (example_products ! 2)
   \<and> map (\<lambda>r. r ''uuid'') example_products = map Some example_uuids
   \<and> map (get_product_odata example_world scihub) example_uuids = map Some example_metas
   \<and> download example_world example_products ''out''
       = ([Getenv ''user'', Getenv ''password'', NewSession scihub,
           ProductOdata scihub (Text ''id1''), Print [''Product S1A_one is online.''],
           Download scihub (Text ''id1'') ''out'',
           ProductOdata scihub (Text ''id2''), Print [''Product S1B_two is not online.''],
           ProductOdata scihub (Text ''id3''), Print [''Product S1A_three is online.''],
           Download scihub (Text ''id3'') ''out''], Inr ())
   \<and> download_calls (trace (download example_world example_products ''out''))
       = [(Text ''id1'', ''out''), (Text ''id3'', ''out'')]
   \<and> download failing_world example_products ''out''
       = ([Getenv ''user'', Getenv ''password'', NewSession scihub,
           ProductOdata scihub (Text ''id1''), Print [''Product S1A_one is online.''],
           Download scihub (Text ''id1'') ''out''], Inl (ApiError ''download''))
   \<and> download_calls (trace (download failing_world example_products ''out''))
       = [(Text ''id1'', ''out'')]"
proof -
  have cols: "has_columns (example_products ! 0)" "has_columns (example_products ! 1)"
    "has_columns (example_products ! 2)"
    by (simp_all add: example_products_def has_columns_def)
  have good: "reached example_world scihub ''out'' (zip example_uuids example_metas)
      = zip example_uuids example_metas"
    "list_all (download_ok example_world scihub ''out'') (zip example_uuids example_metas)"
    by (simp_all add: reached_def download_ok_def example_world_def example_uuids_def
        example_metas_def)
  have bad: "reached failing_world scihub ''out'' (zip example_uuids example_metas)
      = [(Text ''id1'', \<lparr>Online = True, meta_title = ''S1A_one''\<rparr>)]"
    "\<not> list_all (download_ok failing_world scihub ''out'') (zip example_uuids example_metas)"
    by (simp_all add: reached_def download_ok_def failing_world_def example_world_def
        example_uuids_def example_metas_def)
  have result: "download example_world example_products ''out''
       = ([Getenv ''user'', Getenv ''password'', NewSession scihub,
           ProductOdata scihub (Text ''id1''), Print [''Product S1A_one is online.''],
           Download scihub (Text ''id1'') ''out'',
           ProductOdata scihub (Text ''id2''), Print [''Product S1B_two is not online.''],
           ProductOdata scihub (Text ''id3''), Print [''Product S1A_three is online.''],
           Download scihub (Text ''id3'') ''out''], Inr ())
   \<and> download_calls (trace (download example_world example_products ''out''))
       = [(Text ''id1'', ''out''), (Text ''id3'', ''out'')]"
    using download_each_online [OF example_creds example_columns example_ids
        example_answers [unfolded scihub_def], of "''out''"] good [unfolded scihub_def]
    by (simp add: scihub_def example_uuids_def example_metas_def download_step_def trace_def)
  have failing: "download failing_world example_products ''out''
       = ([Getenv ''user'', Getenv ''password'', NewSession scihub,
           ProductOdata scihub (Text ''id1''), Print [''Product S1A_one is online.''],
           Download scihub (Text ''id1'') ''out''], Inl (ApiError ''download''))
   \<and> download_calls (trace (download failing_world example_products ''out''))
       = [(Text ''id1'', ''out'')]"
    using download_each_online [OF failing_creds example_columns example_ids
        failing_answers [unfolded scihub_def], of "''out''"] bad [unfolded scihub_def]
    by (simp add: scihub_def download_step_def trace_def)
  from example_creds cols example_ids example_answers result failing show ?thesis
    by blast
qed

text \<open>
  C2. A filter is absent when it is \<open>None\<close> and present when it is a string, which
  is not empty. With the credentials set, the footprint read, the dates in order and the
  search answered, query makes one search call, which carries the keyword of each filter
  that is present and of no other, then prints the number of products found and returns
  them. The four cases are no filter, pass direction only, product type only, and both.
\<close>

theorem query_filter_branches:
  assumes "environ w ''user'' = Some u" and "environ w ''password'' = Some p"
    and "read_footprint w fp = Some g"
    and "to_datetime w s = Some t0" and "to_datetime w e = Some t1" and "t0 < t1"
    and "pt \<noteq> Some []" and "pd \<noteq> Some []"
    and "api_query w (SentinelAPI u p ''https://scihub.copernicus.eu/dhus/'')
           \<lparr>area = g, date = (s, e), platformname = ''Sentinel-1'',
            filters = present_filters pt pd\<rparr> = Some products"
  shows "query w fp s e pt pd
      = ([Getenv ''user'', Getenv ''password'',
          NewSession (SentinelAPI u p ''https://scihub.copernicus.eu/dhus/''),
          ReadFootprint fp,
          Search (SentinelAPI u p ''https://scihub.copernicus.eu/dhus/'')
            \<lparr>area = g, date = (s, e), platformname = ''Sentinel-1'',
             filters = present_filters pt pd\<rparr>,
          Print [str_nat (length products) @ '' scenes have been found in total'', newline]],
         Inr products)
    \<and> present_filters None None = []
    \<and> (\<forall>d. present_filters None (Some d) = [(''orbitdirection'', Some d)])
    \<and> (\<forall>t. present_filters (Some t) None = [(''producttype'', Some t)])
    \<and> (\<forall>t d. present_filters (Some t) (Some d)
                 = [(''producttype'', Some t), (''orbitdirection'', Some d)])"
proof -
  have dates: "dates_to_datetime w s e = ([], Inr (t0, t1))"
    using assms(4,5) by (rule dates_to_datetime_Some)
  note start = query_def getenv_Some assms(1,2,3,6) sentinel_api_eq geojson_wkt_Some dates
    py_assert_def found_message_def to_dataframe_def
  have run: "query w fp s e pt pd
      = ([Getenv ''user'', Getenv ''password'',
          NewSession (SentinelAPI u p ''https://scihub.copernicus.eu/dhus/''),
          ReadFootprint fp,
          Search (SentinelAPI u p ''https://scihub.copernicus.eu/dhus/'')
            \<lparr>area = g, date = (s, e), platformname = ''Sentinel-1'',
             filters = present_filters pt pd\<rparr>,
          Print [str_nat (length products) @ '' scenes have been found in total'', newline]],
         Inr products)"
  proof (cases pt)
    case no_type: None
    show ?thesis
    proof (cases pd)
      case None
      with no_type assms(9) have "api_query w
          (SentinelAPI u p ''https://scihub.copernicus.eu/dhus/'')
          \<lparr>area = g, date = (s, e), platformname = ''Sentinel-1'', filters = []\<rparr>
          = Some products"
        by (simp add: present_filters_def)
      with no_type None show ?thesis
        by (simp add: start search_Some present_filters_def)
    next
      case (Some d)
      with assms(8) have d: "d \<noteq> []"
        by simp
      from no_type Some assms(9) have "api_query w
          (SentinelAPI u p ''https://scihub.copernicus.eu/dhus/'')
          \<lparr>area = g, date = (s, e), platformname = ''Sentinel-1'',
           filters = [(''orbitdirection'', Some d)]\<rparr> = Some products"
        by (simp add: present_filters_def)
      with no_type Some d show ?thesis
        by (simp add: start search_Some present_filters_def)
    qed
  next
    case type: (Some t)
    with assms(7) have t: "t \<noteq> []"
      by simp
    show ?thesis
    proof (cases pd)
      case None
      with type assms(9) have "api_query w
          (SentinelAPI u p ''https://scihub.copernicus.eu/dhus/'')
          \<lparr>area = g, date = (s, e), platformname = ''Sentinel-1'',
           filters = [(''producttype'', Some t)]\<rparr> = Some products"
        by (simp add: present_filters_def)
      with type None t show ?thesis
        by (simp add: start search_Some present_filters_def)
    next
      case (Some d)
      with assms(8) have d: "d \<noteq> []"
        by simp
      from type Some assms(9) have "api_query w
          (SentinelAPI u p ''https://scihub.copernicus.eu/dhus/'')
          \<lparr>area = g, date = (s, e), platformname = ''Sentinel-1'',
           filters = [(''producttype'', Some t), (''orbitdirection'', Some d)]\<rparr>
          = Some products"
        by (simp add: present_filters_def)
      with type Some t d show ?thesis
        by (simp add: start search_Some present_filters_def)
    qed
  qed
  then show ?thesis
    by (simp add: present_filters_def)
qed

theorem query_filter_branches_witness:
  "query example_world ''aoi/AOI.geojson'' ''20190201'' ''20190816'' None None
     = ([Getenv ''user'', Getenv ''password'', NewSession scihub,
         ReadFootprint ''aoi/AOI.geojson'',
         Search scihub \<lparr>area = ''POLYGON'', date = (''20190201'', ''20190816''),
                          platformname = ''Sentinel-1'', filters = []\<rparr>,
         Print [''3 scenes have been found in total'', newline]],
        Inr example_products)
   \<and> query example_world ''aoi/AOI.geojson'' ''20190201'' ''20190816'' None (Some ''ascending'')
     = ([Getenv ''user'', Getenv ''password'', NewSession scihub,
         ReadFootprint ''aoi/AOI.geojson'',
         Search scihub \<lparr>area = ''POLYGON'', date = (''20190201'', ''20190816''),
                          platformname = ''Sentinel-1'',
                          filters = [(''orbitdirection'', Some ''ascending'')]\<rparr>,
         Print [''3 scenes have been found in total'', newline]],
        Inr example_products)
   \<and> query example_world ''aoi/AOI.geojson'' ''20190201'' ''20190816'' (Some ''GRD'') None
     = ([Getenv ''user'', Getenv ''password'', NewSession scihub,
         ReadFootprint ''aoi/AOI.geojson'',
         Search scihub \<lparr>area = ''POLYGON'', date = (''20190201'', ''20190816''),
                          platformname = ''Sentinel-1'',
                          filters = [(''producttype'', Some ''GRD'')]\<rparr>,
         Print [''3 scenes have been found in total'', newline]],
        Inr example_products)
   \<and> query example_world ''aoi/AOI.geojson'' ''20190201'' ''20190816''
        (Some ''SLC'') (Some ''descending'')
     = ([Getenv ''user'', Getenv ''password'', NewSession scihub,
         ReadFootprint ''aoi/AOI.geojson'',
         Search scihub \<lparr>area = ''POLYGON'', date = (''20190201'', ''20190816''),
                          platformname = ''Sentinel-1'',
                          filters = [(''producttype'', Some ''SLC''),
                                     (''orbitdirection'', Some ''descending'')]\<rparr>,
         Print [''3 scenes have been found in total'', newline]],
        Inr example_products)"
proof -
  have fp: "read_footprint example_world ''aoi/AOI.geojson'' = Some ''POLYGON''"
    by (simp add: example_world_def)
  have dates: "to_datetime example_world ''20190201'' = Some 17928"
    "to_datetime example_world ''20190816'' = Some 18124" "(17928::int) < 18124"
    by (simp_all add: example_world_def)
  have found: "\<And>c. api_query example_world
      (SentinelAPI ''alice'' ''secret'' ''https://scihub.copernicus.eu/dhus/'') c
      = Some example_products"
    by (simp add: example_world_def)
  have given: "Some ''ascending'' \<noteq> Some []" "Some ''GRD'' \<noteq> Some []"
    "Some ''SLC'' \<noteq> Some []" "Some ''descending'' \<noteq> Some []" "None \<noteq> Some []"
    by simp_all
  show ?thesis
    using query_filter_branches [OF example_creds fp dates given(5) given(5) found]
      query_filter_branches [OF example_creds fp dates given(5) given(1) found]
      query_filter_branches [OF example_creds fp dates given(2) given(5) found]
      query_filter_branches [OF example_creds fp dates given(3) given(4) found]
    by (simp add: scihub_def present_filters_def example_count)
qed

lemma main_query_invalid:
  assumes "truthy (footprint a)" and "truthy (start_date a)" and "truthy (end_date a)"
    and "invalid_filter a"
  shows "\<exists>msg \<in> {product_message (arg_value (product_type a)),
                 orbit_message (arg_value (pass_direction a)), both_message}.
           main_query w a = ([Print [msg]], Inr None)"
proof (cases "truthy (product_type a)")
  case pt: True
  show ?thesis
  proof (cases "truthy (pass_direction a)")
    case True
    with pt assms show ?thesis
      by (auto simp add: main_query_def invalid_filter_def)
  next
    case False
    with pt assms show ?thesis
      by (auto simp add: main_query_def invalid_filter_def)
  qed
next
  case npt: False
  with assms(4) have "truthy (pass_direction a)"
    and "arg_value (pass_direction a) \<notin> set valid_orbits"
    by (auto simp add: invalid_filter_def)
  with npt assms(1,2,3) show ?thesis
    by (simp add: main_query_def)
qed

lemma main_after_unbound:
  "main_query w a = (t, Inr None) \<Longrightarrow>
   main w a = (t, if online_flag a \<or> download_flag a then Inl (NameError ''products'') else Inr ())"
  by (simp add: main_def read_products_def raise_def return_def)

lemma main_after_bound:
  "main_query w a = (t, Inr (Some products)) \<Longrightarrow>
   main w a =
     bind_io (t, Inr ()) (\<lambda>_.
     bind_io (if online_flag a then is_online w products else return ()) (\<lambda>_.
     if download_flag a \<and> \<not> truthy (outdir a) then download w products (path_cwd w)
     else if download_flag a \<and> truthy (outdir a)
       then download w products (arg_value (outdir a))
     else return ()))"
  by (simp add: main_def read_products_def)

lemma main_query_empty_product_type:
  "main_query w (a\<lparr>product_type := Some []\<rparr>) = main_query w (a\<lparr>product_type := None\<rparr>)"
  by (simp add: main_query_def)

lemma main_query_empty_pass_direction:
  "main_query w (a\<lparr>pass_direction := Some []\<rparr>) = main_query w (a\<lparr>pass_direction := None\<rparr>)"
  by (simp add: main_query_def)

lemma main_empty_product_type:
  "main w (a\<lparr>product_type := Some []\<rparr>) = main w (a\<lparr>product_type := None\<rparr>)"
  by (simp add: main_def main_query_empty_product_type cong: if_cong)

lemma main_empty_pass_direction:
  "main w (a\<lparr>pass_direction := Some []\<rparr>) = main w (a\<lparr>pass_direction := None\<rparr>)"
  by (simp add: main_def main_query_empty_pass_direction cong: if_cong)

text \<open>
  C3 (amended). With the footprint and both dates given, a product type that is a
  string other than the empty one and is none of GRD, SLC, OCN, or such a pass direction
  that is none of ascending, descending, makes the program print one of its three
  messages and nothing else, and leaves \<open>products\<close> unbound without failing. The
  program then fails with \<open>NameError\<close> when the online check or the download is
  requested, and ends normally when neither is. An empty string as product type or as
  pass direction goes through the tests as the option not given does.
\<close>

theorem invalid_filter_unbound:
  assumes "truthy (footprint a)" and "truthy (start_date a)" and "truthy (end_date a)"
    and "invalid_filter a"
  shows "(\<exists>msg \<in> {product_message (arg_value (product_type a)),
                 orbit_message (arg_value (pass_direction a)), both_message}.
           main_query w a = ([Print [msg]], Inr None)
           \<and> main w a = ([Print [msg]],
                          if online_flag a \<or> download_flag a
                          then Inl (NameError ''products'') else Inr ()))
    \<and> main_query w' (b\<lparr>product_type := Some []\<rparr>) = main_query w' (b\<lparr>product_type := None\<rparr>)
    \<and> main_query w' (b\<lparr>pass_direction := Some []\<rparr>)
        = main_query w' (b\<lparr>pass_direction := None\<rparr>)"
proof -
  from main_query_invalid [OF assms]
  obtain msg where msg: "msg \<in> {product_message (arg_value (product_type a)),
      orbit_message (arg_value (pass_direction a)), both_message}"
    and unbound: "main_query w a = ([Print [msg]], Inr None)"
    by blast
  from unbound have "main w a = ([Print [msg]],
      if online_flag a \<or> download_flag a then Inl (NameError ''products'') else Inr ())"
    by (rule main_after_unbound)
  with msg unbound have "\<exists>msg \<in> {product_message (arg_value (product_type a)),
                 orbit_message (arg_value (pass_direction a)), both_message}.
           main_query w a = ([Print [msg]], Inr None)
           \<and> main w a = ([Print [msg]],
                          if online_flag a \<or> download_flag a
                          then Inl (NameError ''products'') else Inr ())"
    by blast
  then show ?thesis
    using main_query_empty_product_type [of w' b] main_query_empty_pass_direction [of w' b]
    by simp
qed

theorem invalid_filter_unbound_witness:
  "main_query example_world (example_args\<lparr>product_type := Some ''XYZ'', online_flag := True\<rparr>)
     = ([Print [''The product specified XYZ does not exist. Valid products: GRD, SLC or OCN'']],
        Inr None)
   \<and> main example_world (example_args\<lparr>product_type := Some ''XYZ'', online_flag := True\<rparr>)
     = ([Print [''The product specified XYZ does not exist. Valid products: GRD, SLC or OCN'']],
        Inl (NameError ''products''))"
proof -
  let ?a = "example_args\<lparr>product_type := Some ''XYZ'', online_flag := True\<rparr>"
  have given: "truthy (footprint ?a)" "truthy (start_date ?a)" "truthy (end_date ?a)"
    by (simp_all add: example_args_def)
  have bad: "invalid_filter ?a"
    by (simp add: invalid_filter_def example_args_def valid_product_types_def)
  show ?thesis
    using invalid_filter_unbound [OF given bad, of example_world]
    by (simp add: product_message_def orbit_message_def both_message_def newline_def
        example_args_def main_query_def valid_product_types_def)
qed

lemma example_is_online: "snd (is_online example_world example_products) = Inr ()"
  by (simp add: is_online_def getenv_Some example_creds sentinel_api_eq
      is_online_rows_eq [OF example_columns example_ids example_answers [unfolded scihub_def]]
      is_online_report_titles)

text \<open>
  The empty string is not a valid orbit, yet with it as pass direction the program prints
  no message about it, runs the query without filter, binds \<open>products\<close>, and the
  online check that follows ends normally.
\<close>

theorem empty_orbit_bound_counterexample:
  "[] \<notin> set valid_orbits
   \<and> main_query example_world (example_args\<lparr>pass_direction := Some [], online_flag := True\<rparr>)
     = ([Getenv ''user'', Getenv ''password'', NewSession scihub,
         ReadFootprint ''aoi/AOI.geojson'',
         Search scihub \<lparr>area = ''POLYGON'', date = (''20190201'', ''20190816''),
                          platformname = ''Sentinel-1'', filters = []\<rparr>,
         Print [''3 scenes have been found in total'', newline]],
        Inr (Some example_products))
   \<and> outcome (main example_world
                 (example_args\<lparr>pass_direction := Some [], online_flag := True\<rparr>)) = Inr ()"
proof -
  let ?a = "example_args\<lparr>pass_direction := Some [], online_flag := True\<rparr>"
  have q: "main_query example_world ?a
     = ([Getenv ''user'', Getenv ''password'', NewSession scihub,
         ReadFootprint ''aoi/AOI.geojson'',
         Search scihub \<lparr>area = ''POLYGON'', date = (''20190201'', ''20190816''),
                          platformname = ''Sentinel-1'', filters = []\<rparr>,
         Print [''3 scenes have been found in total'', newline]],
        Inr (Some example_products))"
    by (simp add: main_query_def example_args_def query_def getenv_Some sentinel_api_eq
        geojson_wkt_Some search_Some dates_to_datetime_def py_assert_def found_message_def
        to_dataframe_def return_def example_world_def scihub_def example_count)
  have m: "outcome (main example_world ?a) = Inr ()"
    unfolding outcome_def main_after_bound [OF q]
    using example_is_online by (simp add: example_args_def snd_bind_io)
  from q m show ?thesis
    by (simp add: valid_orbits_def)
qed

lemma query_reads_user_first:
  "\<exists>t. fst (query w fp s e pt pd) = Getenv ''user'' # t"
proof (cases "environ w ''user''")
  case None
  then show ?thesis
    by (simp add: query_def getenv_None)
next
  case (Some usr)
  then show ?thesis
    by (simp add: query_def getenv_Some)
qed

lemma main_parser_error:
  "\<not> truthy (footprint a) \<or> \<not> truthy (start_date a) \<or> \<not> truthy (end_date a)
   \<Longrightarrow> fst (main w a) = []"
  by (auto simp add: main_def main_query_def)

lemma example_main_query:
  assumes "footprint a = Some ''aoi/AOI.geojson''" and "start_date a = Some ''20190201''"
    and "end_date a = Some ''20190816''"
    and "\<not> truthy (product_type a)" and "\<not> truthy (pass_direction a)"
  shows "main_query example_world a
     = ([Getenv ''user'', Getenv ''password'', NewSession scihub,
         ReadFootprint ''aoi/AOI.geojson'',
         Search scihub \<lparr>area = ''POLYGON'', date = (''20190201'', ''20190816''),
                          platformname = ''Sentinel-1'', filters = []\<rparr>,
         Print [''3 scenes have been found in total'', newline]],
        Inr (Some example_products))"
  using assms
  by (simp add: main_query_def query_def getenv_Some sentinel_api_eq
      geojson_wkt_Some search_Some dates_to_datetime_def py_assert_def found_message_def
      to_dataframe_def return_def example_world_def scihub_def example_count)

text \<open>
  C7 (amended). Every call of query begins with the lookup of \<open>user\<close> in the
  environment. When the product type is a string other than the empty one and is none of
  GRD, SLC, OCN, or the pass direction is such a string and is none of ascending,
  descending, the whole run of the program makes no lookup in the environment and no
  search call: query is not called. A run with the empty string as product type or as
  pass direction is the run without that option.
\<close>

theorem invalid_filter_no_query:
  assumes "invalid_filter a"
  shows "(\<exists>t. trace (query w' fp s e pt pd) = Getenv ''user'' # t)
    \<and> (\<forall>k. Getenv k \<notin> set (trace (main w a)))
    \<and> (\<forall>api c. Search api c \<notin> set (trace (main w a)))
    \<and> main w' (b\<lparr>product_type := Some []\<rparr>) = main w' (b\<lparr>product_type := None\<rparr>)
    \<and> main w' (b\<lparr>pass_direction := Some []\<rparr>) = main w' (b\<lparr>pass_direction := None\<rparr>)"
proof -
  have first: "\<exists>t. trace (query w' fp s e pt pd) = Getenv ''user'' # t"
    unfolding trace_def by (rule query_reads_user_first)
  have quiet: "(\<forall>k. Getenv k \<notin> set (fst (main w a)))
      \<and> (\<forall>api c. Search api c \<notin> set (fst (main w a)))"
  proof (cases "truthy (footprint a) \<and> truthy (start_date a) \<and> truthy (end_date a)")
    case True
    then obtain msg where "main_query w a = ([Print [msg]], Inr None)"
      using main_query_invalid [of a w] assms by blast
    then have "fst (main w a) = [Print [msg]]"
      by (simp add: main_after_unbound)
    then show ?thesis
      by simp
  next
    case False
    then have "fst (main w a) = []"
      using main_parser_error [of a w] by blast
    then show ?thesis
      by simp
  qed
  from first quiet main_empty_product_type [of w' b] main_empty_pass_direction [of w' b]
  show ?thesis
    by (simp add: trace_def)
qed

theorem invalid_filter_no_query_witness:
  "invalid_filter (example_args\<lparr>pass_direction := Some ''north''\<rparr>)
   \<and> Getenv ''user'' \<notin> set (trace (main example_world
                                        (example_args\<lparr>pass_direction := Some ''north''\<rparr>)))
   \<and> Search scihub \<lparr>area = ''POLYGON'', date = (''20190201'', ''20190816''),
                    platformname = ''Sentinel-1'',
                    filters = [(''orbitdirection'', Some ''north'')]\<rparr>
       \<notin> set (trace (main example_world (example_args\<lparr>pass_direction := Some ''north''\<rparr>)))"
proof -
  have bad: "invalid_filter (example_args\<lparr>pass_direction := Some ''north''\<rparr>)"
    by (simp add: invalid_filter_def example_args_def valid_orbits_def)
  from invalid_filter_no_query [OF bad, of example_world] bad show ?thesis
    by blast
qed

text \<open>
  The empty string is not a valid product type, yet with it as product type the program
  calls query, which makes its search call without filter.
\<close>

theorem empty_product_type_counterexample:
  "[] \<notin> set valid_product_types
   \<and> trace (main example_world (example_args\<lparr>product_type := Some []\<rparr>))
     = [Getenv ''user'', Getenv ''password'', NewSession scihub,
        ReadFootprint ''aoi/AOI.geojson'',
        Search scihub \<lparr>area = ''POLYGON'', date = (''20190201'', ''20190816''),
                         platformname = ''Sentinel-1'', filters = []\<rparr>,
        Print [''3 scenes have been found in total'', newline]]"
proof -
  let ?a = "example_args\<lparr>product_type := Some []\<rparr>"
  have q: "main_query example_world ?a
     = ([Getenv ''user'', Getenv ''password'', NewSession scihub,
         ReadFootprint ''aoi/AOI.geojson'',
         Search scihub \<lparr>area = ''POLYGON'', date = (''20190201'', ''20190816''),
                          platformname = ''Sentinel-1'', filters = []\<rparr>,
         Print [''3 scenes have been found in total'', newline]],
        Inr (Some example_products))"
    by (rule example_main_query) (simp_all add: example_args_def)
  have "trace (main example_world ?a)
     = [Getenv ''user'', Getenv ''password'', NewSession scihub,
        ReadFootprint ''aoi/AOI.geojson'',
        Search scihub \<lparr>area = ''POLYGON'', date = (''20190201'', ''20190816''),
                         platformname = ''Sentinel-1'', filters = []\<rparr>,
        Print [''3 scenes have been found in total'', newline]]"
    unfolding trace_def main_after_bound [OF q]
    by (simp add: example_args_def)
  then show ?thesis
    by (simp add: valid_product_types_def)
qed

lemma paths_bind:
  assumes "snd ` set (download_calls (fst m)) \<subseteq> {dir}"
    and "\<And>a. snd ` set (download_calls (fst (f a))) \<subseteq> {dir}"
  shows "snd ` set (download_calls (fst (bind_io m f))) \<subseteq> {dir}"
proof (cases m)
  case (Pair t r)
  show ?thesis
  proof (cases r)
    case (Inl err)
    with Pair assms(1) show ?thesis
      by simp
  next
    case (Inr b)
    with Pair assms(1) assms(2) [of b] show ?thesis
      by (auto simp add: download_calls_append)
  qed
qed

lemma fst_select_columns: "fst (select_columns r labels) = []"
  by (simp add: select_columns_def split: list.splits)

lemma fst_getitem: "fst (getitem r label) = []"
  by (simp add: getitem_def split: option.splits)

lemma fst_cell_strftime: "fst (cell_strftime w c fmt) = []"
  by (simp add: cell_strftime_def split: cell.splits)

lemma fst_product_odata: "fst (product_odata w api u) = [ProductOdata api u]"
  by (simp add: product_odata_def split: option.splits)

lemma fst_download_product: "fst (download_product w api u dir) = [Download api u dir]"
  by (simp add: download_product_def)

lemma fst_print: "fst (print xs) = [Print xs]"
  by (simp add: print_def emit_def)

lemma download_rows_paths:
  "snd ` set (download_calls (fst (download_rows w api rows dir))) \<subseteq> {dir}"
proof (induction rows)
  case Nil
  then show ?case by simp
next
  case (Cons row rows)
  have notice: "\<And>meta product.
      snd ` set (download_calls (fst
        (if Online meta then
           bind_io (print [''Product '' @ meta_title meta @ '' is online.'']) (\<lambda>_.
           bind_io (getitem product ''uuid'') (\<lambda>u. download_product w api u dir))
         else print [''Product '' @ meta_title meta @ '' is not online.'']))) \<subseteq> {dir}"
    by (simp add: fst_print fst_bind_io fst_download_product fst_getitem
        paths_bind [where m = "getitem product ''uuid''" for product])
  show ?case
    unfolding download_rows.simps
    by (intro paths_bind notice Cons.IH)
      (simp_all add: fst_select_columns fst_getitem fst_cell_strftime fst_product_odata)
qed

lemma download_paths:
  "snd ` set (download_calls (fst (download w products dir))) \<subseteq> {dir}"
proof (cases "environ w ''user''")
  case None
  then show ?thesis
    by (simp add: download_def getenv_None)
next
  case user: (Some usr)
  show ?thesis
  proof (cases "environ w ''password''")
    case None
    with user show ?thesis
      by (simp add: download_def getenv_None getenv_Some)
  next
    case (Some pwd)
    with user show ?thesis
      using download_rows_paths [of w "SentinelAPI usr pwd ''https://scihub.copernicus.eu/dhus/''"
          products dir]
      by (simp add: download_def getenv_Some sentinel_api_eq)
  qed
qed

lemma example_download:
  "download example_world example_products dir
     = ([Getenv ''user'', Getenv ''password'', NewSession scihub,
         ProductOdata scihub (Text ''id1''), Print [''Product S1A_one is online.''],
         Download scihub (Text ''id1'') dir,
         ProductOdata scihub (Text ''id2''), Print [''Product S1B_two is not online.''],
         ProductOdata scihub (Text ''id3''), Print [''Product S1A_three is online.''],
         Download scihub (Text ''id3'') dir], Inr ())"
proof -
  have good: "list_all (download_ok example_world scihub dir) (zip example_uuids example_metas)"
    by (simp add: list_all_iff download_ok_def example_world_def)
  have rows: "download_rows example_world scihub example_products dir
      = (concat (map (download_step scihub dir) (zip example_uuids example_metas)), Inr ())"
    using download_rows_eq [OF example_columns example_ids example_answers, of dir] good
    by (simp add: reached_all)
  have whole: "download example_world example_products dir
      = ([Getenv ''user'', Getenv ''password'', NewSession scihub]
         @ concat (map (download_step scihub dir) (zip example_uuids example_metas)), Inr ())"
    by (simp add: download_def getenv_Some example_creds sentinel_api_eq
        rows [unfolded scihub_def] scihub_def)
  show ?thesis
    unfolding whole
    by (simp add: example_uuids_def example_metas_def download_step_def)
qed

text \<open>
  C9 (amended). With the download flag set, \<open>products\<close> bound and the online
  check, when requested, ended normally: without an output directory, or with the empty
  string as output directory, the program continues as the downloader called with the
  current working directory; with an output directory that is not the empty string it
  continues as the downloader called with that directory. Every download call of the
  downloader carries the directory it was called with.
\<close>

theorem download_output_path:
  assumes "download_flag a" and "main_query w a = (t1, Inr (Some products))"
    and "(if online_flag a then is_online w products else return ()) = (t2, Inr ())"
  shows "(outdir a = None \<or> outdir a = Some [] \<longrightarrow>
            main w a = (t1 @ t2 @ trace (download w products (path_cwd w)),
                        outcome (download w products (path_cwd w))))
    \<and> (\<forall>d. outdir a = Some d \<and> d \<noteq> [] \<longrightarrow>
            main w a = (t1 @ t2 @ trace (download w products d),
                        outcome (download w products d)))
    \<and> (\<forall>d. snd ` set (download_calls (trace (download w products d))) \<subseteq> {d})"
proof -
  note run = main_after_bound [OF assms(2)]
  have cwd: "outdir a = None \<or> outdir a = Some [] \<longrightarrow>
      main w a = (t1 @ t2 @ trace (download w products (path_cwd w)),
                  outcome (download w products (path_cwd w)))"
    using assms(1) by (auto simp add: run assms(3) trace_def outcome_def)
  have given: "\<forall>d. outdir a = Some d \<and> d \<noteq> [] \<longrightarrow>
      main w a = (t1 @ t2 @ trace (download w products d), outcome (download w products d))"
    using assms(1) by (simp add: run assms(3) trace_def outcome_def)
  have paths: "\<forall>d. snd ` set (download_calls (trace (download w products d))) \<subseteq> {d}"
    unfolding trace_def using download_paths by blast
  from cwd given paths show ?thesis
    by blast
qed

theorem download_output_path_witness:
  "download_calls (trace (main example_world (example_args\<lparr>download_flag := True\<rparr>)))
     = [(Text ''id1'', ''/home/alice''), (Text ''id3'', ''/home/alice'')]
   \<and> download_calls (trace (main example_world
        (example_args\<lparr>outdir := Some ''data'', download_flag := True\<rparr>)))
     = [(Text ''id1'', ''data''), (Text ''id3'', ''data'')]"
proof -
  let ?a = "example_args\<lparr>download_flag := True\<rparr>"
  let ?b = "example_args\<lparr>outdir := Some ''data'', download_flag := True\<rparr>"
  let ?t = "[Getenv ''user'', Getenv ''password'', NewSession scihub,
         ReadFootprint ''aoi/AOI.geojson'',
         Search scihub \<lparr>area = ''POLYGON'', date = (''20190201'', ''20190816''),
                          platformname = ''Sentinel-1'', filters = []\<rparr>,
         Print [''3 scenes have been found in total'', newline]]"
  have qa: "main_query example_world ?a = (?t, Inr (Some example_products))"
    by (rule example_main_query) (simp_all add: example_args_def)
  have qb: "main_query example_world ?b = (?t, Inr (Some example_products))"
    by (rule example_main_query) (simp_all add: example_args_def)
  have fa: "download_flag ?a" and fb: "download_flag ?b"
    by (simp_all add: example_args_def)
  have oa: "(if online_flag ?a then is_online example_world example_products else return ())
      = ([], Inr ())"
    by (simp add: example_args_def return_def)
  have ob: "(if online_flag ?b then is_online example_world example_products else return ())
      = ([], Inr ())"
    by (simp add: example_args_def return_def)
  have na: "outdir ?a = None" and nb: "outdir ?b = Some ''data''"
    by (simp_all add: example_args_def)
  have cwd: "path_cwd example_world = ''/home/alice''"
    by (simp add: example_world_def)
  have ma: "main example_world ?a
      = (?t @ [] @ trace (download example_world example_products ''/home/alice''),
         outcome (download example_world example_products ''/home/alice''))"
    using download_output_path [OF fa qa oa] na cwd by simp
  have mb: "main example_world ?b
      = (?t @ [] @ trace (download example_world example_products ''data''),
         outcome (download example_world example_products ''data''))"
    using download_output_path [OF fb qb ob] nb by simp
  show ?thesis
    unfolding ma mb
    by (simp add: trace_def example_download)
qed

text \<open>
  With the empty string given as output directory, the download calls carry the current
  working directory, not the directory given.
\<close>

theorem empty_outdir_counterexample:
  "outdir (example_args\<lparr>outdir := Some [], download_flag := True\<rparr>) = Some []
   \<and> download_calls (trace (main example_world
        (example_args\<lparr>outdir := Some [], download_flag := True\<rparr>)))
     = [(Text ''id1'', ''/home/alice''), (Text ''id3'', ''/home/alice'')]"
proof -
  let ?a = "example_args\<lparr>outdir := Some [], download_flag := True\<rparr>"
  have q: "main_query example_world ?a
     = ([Getenv ''user'', Getenv ''password'', NewSession scihub,
         ReadFootprint ''aoi/AOI.geojson'',
         Search scihub \<lparr>area = ''POLYGON'', date = (''20190201'', ''20190816''),
                          platformname = ''Sentinel-1'', filters = []\<rparr>,
         Print [''3 scenes have been found in total'', newline]],
        Inr (Some example_products))"
    by (rule example_main_query) (simp_all add: example_args_def)
  have cwd: "path_cwd example_world = ''/home/alice''"
    by (simp add: example_world_def)
  have "download_calls (trace (main example_world ?a))
     = [(Text ''id1'', ''/home/alice''), (Text ''id3'', ''/home/alice'')]"
    unfolding trace_def main_after_bound [OF q]
    by (simp add: example_args_def example_download cwd)
  then show ?thesis
    by (simp add: example_args_def)
qed

end
